theory Spec2Isabelle
  imports
    Complex_Main
    "HOL-Library.Char_ord"
    "HOL-Library.List_Lexorder"
    "HOL-Library.Product_Lexorder"
    "HOL-Library.Sublist"
begin

section \<open>Conventions of the embedding\<close>

text \<open>
  The development embeds the allocation core of the SmartAlloc backend:
  \<^item> \<^verbatim>\<open>utils/constants.py\<close>, \<^verbatim>\<open>utils/exceptions.py\<close>;
  \<^item> \<^verbatim>\<open>apps/allocation/ml_models/features.py\<close>, \<^verbatim>\<open>features_v2.py\<close>, \<^verbatim>\<open>predictor.py\<close>;
  \<^item> \<^verbatim>\<open>apps/hostels/models.py\<close> (Room, BedSpace), \<^verbatim>\<open>apps/allocation/models.py\<close>
    (Allocation), \<^verbatim>\<open>apps/applications/models.py\<close> (Application, WaitingList);
  \<^item> \<^verbatim>\<open>apps/allocation/allocation_engine.py\<close> (AllocationEngine).

  Python floats are idealised as \<^typ>\<open>real\<close>: no claim below depends on rounding error.
  Exceptions are values of type \<open>error\<close>; a function that can raise returns
  \<open>error + 'a\<close> with \<open>Inl\<close> for the raise. Logging and audit-log rows are left out: no
  function below reads them.
\<close>

datatype error =
    TypeError
  | KeyError
  | ModelFailure
  | ModelNotTrainedError
  | IntegrityError
  | TransactionManagementError
  | DoesNotExist

section \<open>utils/constants.py\<close>

definition seniority_boost :: real where
  "seniority_boost = 12 / 10"

definition disability_priority :: bool where
  "disability_priority = True"

definition max_distance_cap :: real where
  "max_distance_cap = 500"

definition weight_gpa :: real where
  "weight_gpa = 40 / 100"

definition weight_distance :: real where
  "weight_distance = 30 / 100"

definition weight_level :: real where
  "weight_level = 20 / 100"

definition weight_need_based :: real where
  "weight_need_based = 10 / 100"

definition MIN_PRIORITY_SCORE :: real where
  "MIN_PRIORITY_SCORE = 0"

definition MAX_PRIORITY_SCORE :: real where
  "MAX_PRIORITY_SCORE = 100"

definition MIN_GPA :: real where
  "MIN_GPA = 0"

definition MAX_GPA :: real where
  "MAX_GPA = 5"

section \<open>Student data in its two shapes\<close>

text \<open>
  \<^verbatim>\<open>StudentProfile\<close> (apps/students/models.py), with the fields the engine and the feature
  code read. \<open>current_gpa\<close> (a DecimalField, read below only through \<^verbatim>\<open>float()\<close> and truth
  tests) and \<open>distance_from_campus\<close> are nullable columns. The model
  class has no attribute \<^verbatim>\<open>get\<close>, no \<^verbatim>\<open>__getitem__\<close>, and none of the attributes
  \<^verbatim>\<open>current_level\<close>, \<^verbatim>\<open>chronic_medical_condition\<close>, \<^verbatim>\<open>first_generation_student\<close>,
  \<^verbatim>\<open>international_student\<close>, \<^verbatim>\<open>previous_housing_status\<close>, \<^verbatim>\<open>semesters_completed\<close>,
  \<^verbatim>\<open>academic_probation_status\<close>, \<^verbatim>\<open>family_size\<close>, \<^verbatim>\<open>family_income_bracket\<close>,
  \<^verbatim>\<open>employment_hours_per_week\<close>.
\<close>

record student_profile =
  student_id :: nat
  current_gpa :: "real option"
  level :: int
  gender :: string
  distance_from_campus :: "real option"
  disability_status :: bool
  financial_aid_status :: bool

text \<open>
  The plain key-value shape is a Python dict. Its numeric entries (ints, floats and
  bools, which \<^verbatim>\<open>float()\<close> and truth tests read as numbers) are a map from keys to
  reals; the \<^verbatim>\<open>'gender'\<close> entry holds a string and is kept apart. An absent key is
  \<open>None\<close> of the map.
\<close>

record student_record =
  entries :: "string \<rightharpoonup> real"
  gender_entry :: "string option"

text \<open>\<^verbatim>\<open>data.get(k)\<close> for a value that may be missing, and Python's truth value of a number.\<close>

definition truthy :: "real \<Rightarrow> bool" where
  "truthy x = (x \<noteq> 0)"

definition get_or :: "(string \<rightharpoonup> real) \<Rightarrow> string \<Rightarrow> real \<Rightarrow> real" where
  "get_or d k dflt = (case d k of Some v \<Rightarrow> v | None \<Rightarrow> dflt)"

section \<open>ml_models/features.py: FeatureEngineer and the domain-knowledge score\<close>

definition normalize_gpa :: "real option \<Rightarrow> real" where
  "normalize_gpa gpa =
     (case gpa of
        None \<Rightarrow> 0
      | Some g \<Rightarrow>
          if g < MIN_GPA then 0
          else max 0 (min 1 ((g - MIN_GPA) / (MAX_GPA - MIN_GPA))))"

text \<open>
  \<^verbatim>\<open>level_map.get(level, 1)\<close> compares numbers by value, so the level is taken as a real:
  a profile passes its integer column, a dict whatever number it holds.
\<close>

definition encode_level :: "real \<Rightarrow> int" where
  "encode_level lvl =
     (if lvl = 100 then 1 else if lvl = 200 then 2 else if lvl = 300 then 3
      else if lvl = 400 then 4 else if lvl = 500 then 5 else 1)"

definition transform_distance :: "real option \<Rightarrow> real" where
  "transform_distance distance =
     (case distance of
        None \<Rightarrow> 0
      | Some d \<Rightarrow> if d < 0 then 0 else min d max_distance_cap / max_distance_cap)"

definition encode_binary :: "bool \<Rightarrow> int" where
  "encode_binary v = (if v then 1 else 0)"

definition calculate_seniority_score :: "real \<Rightarrow> real option \<Rightarrow> real" where
  "calculate_seniority_score lvl gpa =
     (let level_encoded = encode_level lvl;
          gpa_normalized =
            (case gpa of
               None \<Rightarrow> 0
             | Some g \<Rightarrow> if truthy g then normalize_gpa gpa else 0)
      in real_of_int level_encoded * (1 + gpa_normalized))"

text \<open>
  \<^verbatim>\<open>FeatureEngineer.extract_features_from_dict\<close>: the six legacy features of a dict with the
  keys \<^verbatim>\<open>gpa\<close>, \<^verbatim>\<open>level\<close>, \<^verbatim>\<open>distance\<close>, \<^verbatim>\<open>disability\<close>, \<^verbatim>\<open>financial_aid\<close>, whose values are
  floats. This is the form \<^verbatim>\<open>training_pipeline.py\<close> calls. The profile form
  \<^verbatim>\<open>FeatureEngineer.extract_features\<close> has no caller in the repository and is not
  embedded: on a stored profile \<^verbatim>\<open>current_gpa\<close> is a Decimal, not a float.
\<close>

definition extract_features_from_dict :: "(string \<rightharpoonup> real) \<Rightarrow> (string \<rightharpoonup> real)" where
  "extract_features_from_dict d =
     [ ''gpa_normalized'' \<mapsto> normalize_gpa (d ''gpa''),
       ''level_encoded'' \<mapsto> real_of_int (encode_level (get_or d ''level'' 100)),
       ''distance_transformed'' \<mapsto> transform_distance (d ''distance''),
       ''disability_flag'' \<mapsto>
          real_of_int (encode_binary (truthy (get_or d ''disability'' 0))),
       ''financial_aid_flag'' \<mapsto>
          real_of_int (encode_binary (truthy (get_or d ''financial_aid'' 0))),
       ''seniority_score'' \<mapsto>
          calculate_seniority_score (get_or d ''level'' 100) (d ''gpa'') ]"

text \<open>
  What reaches the scoring functions as \<^verbatim>\<open>features\<close> is either a feature dict or, when
  \<^verbatim>\<open>predict\<close> passes its argument through unchanged, the profile object itself.
  Subscripting a dict with a missing key raises KeyError; subscripting a model instance
  raises TypeError.
\<close>

datatype features = FeatureDict "string \<rightharpoonup> real" | ProfileObject student_profile

definition getitem :: "features \<Rightarrow> string \<Rightarrow> error + real" where
  "getitem fs k =
     (case fs of
        ProfileObject p \<Rightarrow> Inl TypeError
      | FeatureDict d \<Rightarrow> (case d k of None \<Rightarrow> Inl KeyError | Some v \<Rightarrow> Inr v))"

definition clamp_score :: "real \<Rightarrow> real" where
  "clamp_score x = max 0 (min 100 x)"

text \<open>
  \<^verbatim>\<open>generate_synthetic_priority_score(features)\<close>. The five subscripts are evaluated in the
  source's order, so the first one that fails decides the exception.
\<close>

definition generate_synthetic_priority_score :: "features \<Rightarrow> error + real" where
  "generate_synthetic_priority_score fs =
     (case getitem fs ''gpa_normalized'' of Inl e \<Rightarrow> Inl e | Inr gpa \<Rightarrow>
      case getitem fs ''distance_transformed'' of Inl e \<Rightarrow> Inl e | Inr dst \<Rightarrow>
      case getitem fs ''level_encoded'' of Inl e \<Rightarrow> Inl e | Inr lvl \<Rightarrow>
      case getitem fs ''disability_flag'' of Inl e \<Rightarrow> Inl e | Inr dis \<Rightarrow>
      case getitem fs ''financial_aid_flag'' of Inl e \<Rightarrow> Inl e | Inr fin \<Rightarrow>
        (let gpa_score = gpa * weight_gpa * 100;
             distance_score = dst * weight_distance * 100;
             level_score = (lvl / 5) * weight_level * 100;
             need_score = (if dis + fin > 0 then 1 else 0) * weight_need_based * 100;
             total_score = gpa_score + distance_score + level_score + need_score
         in Inr (max 0 (min 100 total_score))))"

text \<open>
  The weighted sum as the specification words it: 40 per cent of the normalised GPA, 30
  per cent of the transformed distance, 20 per cent of one fifth of the encoded level,
  and the full 10 per cent share when either need flag is set, each on a 0 to 100 scale,
  the total clamped to 0..100.
\<close>

definition weighted_sum_spec :: "real \<Rightarrow> real \<Rightarrow> real \<Rightarrow> bool \<Rightarrow> bool \<Rightarrow> real" where
  "weighted_sum_spec gpa dst lvl dis fin =
     clamp_score
       (40 * gpa + 30 * dst + 20 * (lvl / 5) + (if dis \<or> fin then 10 else 0))"

section \<open>ml_models/features_v2.py: FeatureEngineerV2\<close>

definition FEATURE_ORDER :: "string list" where
  "FEATURE_ORDER =
     [''level'', ''gpa'', ''distance_km'', ''disability'', ''medical_condition'',
      ''financial_need'', ''first_generation'', ''international'', ''previous_housing'',
      ''semesters_completed'', ''academic_probation'', ''family_size'',
      ''family_income_bracket'', ''employment_hours'', ''gender_M'', ''gender_F'',
      ''gender_Other'']"

text \<open>\<^verbatim>\<open>x or dflt\<close> on a nullable number: \<^verbatim>\<open>None\<close> and zero are both falsy.\<close>

definition or_default :: "real option \<Rightarrow> real \<Rightarrow> real" where
  "or_default v dflt = (case v of None \<Rightarrow> dflt | Some x \<Rightarrow> if truthy x then x else dflt)"

definition flag :: "bool \<Rightarrow> real" where
  "flag b = (if b then 1 else 0)"

text \<open>
  \<^verbatim>\<open>extract_features_from_profile\<close>. Every \<^verbatim>\<open>getattr(student_profile, name, dflt) or dflt\<close>
  whose \<^verbatim>\<open>name\<close> is not an attribute of StudentProfile yields \<^verbatim>\<open>dflt\<close>: that is the case of
  \<^verbatim>\<open>current_level\<close> (the column is called \<^verbatim>\<open>level\<close>) and of all the socio-demographic
  attributes, so those features are the constants written below.
\<close>

definition extract_features_from_profile :: "student_profile \<Rightarrow> (string \<rightharpoonup> real)" where
  "extract_features_from_profile p =
     (let gpa = or_default (current_gpa p) 3;
          distance = or_default (distance_from_campus p) 50;
          g = (if gender p \<in> set [''M'', ''F'', ''Other''] then gender p else ''M'')
      in [ ''level'' \<mapsto> 100,
           ''gpa'' \<mapsto> gpa,
           ''distance_km'' \<mapsto> min distance max_distance_cap,
           ''disability'' \<mapsto> flag (disability_status p),
           ''medical_condition'' \<mapsto> 0,
           ''financial_need'' \<mapsto> flag (financial_aid_status p),
           ''first_generation'' \<mapsto> 0,
           ''international'' \<mapsto> 0,
           ''previous_housing'' \<mapsto> 0,
           ''semesters_completed'' \<mapsto> 0,
           ''academic_probation'' \<mapsto> 0,
           ''family_size'' \<mapsto> 4,
           ''family_income_bracket'' \<mapsto> 5,
           ''employment_hours'' \<mapsto> 0,
           ''gender_M'' \<mapsto> flag (g = ''M''),
           ''gender_F'' \<mapsto> flag (g = ''F''),
           ''gender_Other'' \<mapsto> flag (g = ''Other'') ])"

text \<open>\<^verbatim>\<open>data.get(k1, data.get(k2, dflt))\<close> and its three-key form.\<close>

definition get2 :: "(string \<rightharpoonup> real) \<Rightarrow> string \<Rightarrow> string \<Rightarrow> real \<Rightarrow> real" where
  "get2 d k1 k2 dflt = get_or d k1 (get_or d k2 dflt)"

definition get3 :: "(string \<rightharpoonup> real) \<Rightarrow> string \<Rightarrow> string \<Rightarrow> string \<Rightarrow> real \<Rightarrow> real" where
  "get3 d k1 k2 k3 dflt = get_or d k1 (get_or d k2 (get_or d k3 dflt))"

text \<open>\<^verbatim>\<open>FeatureEngineerV2.extract_features_from_dict\<close>, the distance capped after the dict is built.\<close>

definition v2_extract_features_from_dict :: "student_record \<Rightarrow> (string \<rightharpoonup> real)" where
  "v2_extract_features_from_dict r =
     (let d = entries r;
          g = (case gender_entry r of None \<Rightarrow> ''M'' | Some s \<Rightarrow> s)
      in [ ''level'' \<mapsto> get2 d ''level'' ''current_level'' 100,
           ''gpa'' \<mapsto> get2 d ''gpa'' ''current_gpa'' 3,
           ''distance_km'' \<mapsto>
              min (get3 d ''distance'' ''distance_km'' ''distance_from_campus'' 50)
                  max_distance_cap,
           ''disability'' \<mapsto> flag (truthy (get2 d ''disability'' ''disability_status'' 0)),
           ''medical_condition'' \<mapsto>
              flag (truthy (get2 d ''medical_condition'' ''chronic_medical_condition'' 0)),
           ''financial_need'' \<mapsto>
              flag (truthy (get2 d ''financial_need'' ''financial_aid_status'' 0)),
           ''first_generation'' \<mapsto>
              flag (truthy (get2 d ''first_generation'' ''first_generation_student'' 0)),
           ''international'' \<mapsto>
              flag (truthy (get2 d ''international'' ''international_student'' 0)),
           ''previous_housing'' \<mapsto>
              flag (truthy (get2 d ''previous_housing'' ''previous_housing_status'' 0)),
           ''semesters_completed'' \<mapsto> get_or d ''semesters_completed'' 0,
           ''academic_probation'' \<mapsto>
              flag (truthy (get2 d ''academic_probation'' ''academic_probation_status'' 0)),
           ''family_size'' \<mapsto> get_or d ''family_size'' 4,
           ''family_income_bracket'' \<mapsto> get_or d ''family_income_bracket'' 5,
           ''employment_hours'' \<mapsto>
              get2 d ''employment_hours'' ''employment_hours_per_week'' 0,
           ''gender_M'' \<mapsto> flag (g = ''M''),
           ''gender_F'' \<mapsto> flag (g = ''F''),
           ''gender_Other'' \<mapsto> flag (g = ''Other'') ])"

text \<open>\<^verbatim>\<open>prepare_model_input\<close>: \<^verbatim>\<open>[features[f] for f in FEATURE_ORDER]\<close>, failing at the first bad subscript.\<close>

fun subscript_all :: "features \<Rightarrow> string list \<Rightarrow> error + real list" where
  "subscript_all fs [] = Inr []"
| "subscript_all fs (k # ks) =
     (case getitem fs k of
        Inl e \<Rightarrow> Inl e
      | Inr v \<Rightarrow> (case subscript_all fs ks of Inl e \<Rightarrow> Inl e | Inr vs \<Rightarrow> Inr (v # vs)))"

definition prepare_model_input :: "features \<Rightarrow> error + real list" where
  "prepare_model_input fs = subscript_all fs FEATURE_ORDER"

section \<open>ml_models/predictor.py: PriorityPredictor\<close>

text \<open>
  The trained artefact comes from scikit-learn and is a parameter here: what
  \<^verbatim>\<open>model.predict(X)[0]\<close> returns or raises on a feature row, what
  \<^verbatim>\<open>_calculate_confidence\<close> and \<^verbatim>\<open>_get_feature_importance\<close> make of it (both catch their
  own exceptions and always return). The scaler is optional, as in \<^verbatim>\<open>_load_model\<close>.
\<close>

record ml_model =
  model_predict :: "real list \<Rightarrow> error + real"
  model_confidence :: "real list \<Rightarrow> real"
  model_feature_importance :: "(string \<times> real) list"

record predictor =
  predictor_model :: "ml_model option"
  predictor_scaler :: "(real list \<Rightarrow> error + real list) option"
  predictor_version :: string

record prediction =
  priority_score :: real
  confidence :: real
  feature_importance :: "(string \<times> real) list"
  model_version :: string
  scoring_method :: string
  raw_score :: real

definition is_model_loaded :: "predictor \<Rightarrow> bool" where
  "is_model_loaded pr = (predictor_model pr \<noteq> None)"

text \<open>
  \<^verbatim>\<open>round(x, n)\<close> on the idealised reals: to the nearest multiple of \<open>10\<^sup>-\<^sup>n\<close>, a tie going to
  the even neighbour.
\<close>

definition round_half_even :: "real \<Rightarrow> int" where
  "round_half_even x =
     (let f = \<lfloor>x\<rfloor>; r = x - real_of_int f
      in if r < 1 / 2 then f else if 1 / 2 < r then f + 1
         else if even f then f else f + 1)"

definition py_round :: "real \<Rightarrow> nat \<Rightarrow> real" where
  "py_round x n = real_of_int (round_half_even (x * 10 ^ n)) / 10 ^ n"

definition ml_predict :: "predictor \<Rightarrow> ml_model \<Rightarrow> features \<Rightarrow> error + prediction" where
  "ml_predict pr m fs =
     (case prepare_model_input fs of
        Inl e \<Rightarrow> Inl e
      | Inr X0 \<Rightarrow>
          (case (case predictor_scaler pr of None \<Rightarrow> Inr X0 | Some sc \<Rightarrow> sc X0) of
             Inl e \<Rightarrow> Inl e
           | Inr X \<Rightarrow>
               (case model_predict m X of
                  Inl e \<Rightarrow> Inl e
                | Inr raw \<Rightarrow>
                    Inr \<lparr> priority_score =
                            py_round (max MIN_PRIORITY_SCORE (min MAX_PRIORITY_SCORE raw)) 2,
                          confidence = py_round (model_confidence m X) 4,
                          feature_importance = model_feature_importance m,
                          model_version = predictor_version pr,
                          scoring_method = ''ml_model'',
                          raw_score = py_round raw 2 \<rparr>)))"

definition domain_knowledge_predict :: "features \<Rightarrow> error + prediction" where
  "domain_knowledge_predict fs =
     (case generate_synthetic_priority_score fs of
        Inl e \<Rightarrow> Inl e
      | Inr score \<Rightarrow>
          Inr \<lparr> priority_score = py_round score 2,
                confidence = 85 / 100,
                feature_importance =
                  [(''gpa_normalized'', 40 / 100), (''distance_transformed'', 30 / 100),
                   (''level_encoded'', 20 / 100), (''disability_flag'', 5 / 100),
                   (''financial_aid_flag'', 5 / 100)],
                model_version = ''domain_knowledge_v1'',
                scoring_method = ''domain_knowledge'',
                raw_score = py_round score 2 \<rparr>)"

text \<open>
  The two shapes \<^verbatim>\<open>predict\<close> is called with: a StudentProfile instance (by the engine) and
  a dict (by the prediction endpoint and \<^verbatim>\<open>batch_predict\<close>).
\<close>

datatype predict_input = Profile student_profile | Record student_record

text \<open>
  \<^verbatim>\<open>PriorityPredictor.predict(student_features, use_domain_knowledge)\<close>. The source
  dispatches on \<^verbatim>\<open>hasattr(student_features, 'get')\<close>: a dict has \<^verbatim>\<open>get\<close> and no attribute
  \<^verbatim>\<open>current_gpa\<close>, so it goes through \<^verbatim>\<open>extract_features_from_dict\<close>; a StudentProfile has no
  \<^verbatim>\<open>get\<close>, so the \<^verbatim>\<open>else\<close> branch binds \<^verbatim>\<open>features\<close> to the profile object itself. An
  exception of the model path is caught; with the fallback allowed control falls through
  to the domain-knowledge path.
\<close>

definition predict :: "predictor \<Rightarrow> predict_input \<Rightarrow> bool \<Rightarrow> error + prediction" where
  "predict pr student_features use_domain_knowledge =
     (let fs = (case student_features of
                  Record d \<Rightarrow> FeatureDict (v2_extract_features_from_dict d)
                | Profile p \<Rightarrow> ProfileObject p)
      in case predictor_model pr of
           Some m \<Rightarrow>
             (case ml_predict pr m fs of
                Inr result \<Rightarrow> Inr result
              | Inl e \<Rightarrow>
                  if \<not> use_domain_knowledge then Inl ModelNotTrainedError
                  else domain_knowledge_predict fs)
         | None \<Rightarrow>
             if use_domain_knowledge then domain_knowledge_predict fs
             else Inl ModelNotTrainedError)"

section \<open>allocation\_engine.py: scoring\<close>

record application =
  app_id :: nat
  student :: student_profile
  preferred_hostel :: "nat option"
  application_date :: nat

text \<open>
  The engine holds its predictor in \<^verbatim>\<open>self.predictor\<close> and only calls
  \<^verbatim>\<open>predict(app.student, use_domain_knowledge=True)\<close> on it; the scoring functions take
  that method as a parameter. \<open>repo_predictor\<close> is the one \<^verbatim>\<open>get_predictor()\<close> supplies.
\<close>

type_synonym predict_method = "student_profile \<Rightarrow> bool \<Rightarrow> error + prediction"

definition repo_predictor :: "predictor \<Rightarrow> predict_method" where
  "repo_predictor pr = (\<lambda>p use_domain_knowledge. predict pr (Profile p) use_domain_knowledge)"

text \<open>
  The body of the loop of \<^verbatim>\<open>calculate_priority_scores\<close> for one application: the value
  stored under \<^verbatim>\<open>scores[app.id]\<close>. The \<^verbatim>\<open>except Exception\<close> branch stores 0.0.
\<close>

definition score_application :: "predict_method \<Rightarrow> application \<Rightarrow> real" where
  "score_application predictor_predict app =
     (case predictor_predict (student app) True of
        Inl e \<Rightarrow> 0
      | Inr result \<Rightarrow>
          (let score0 = priority_score result;
               score1 = (if truthy seniority_boost
                         then (if level (student app) \<in> set [400, 500]
                               then score0 * seniority_boost else score0)
                         else score0);
               score2 = (if disability_priority
                         then (if disability_status (student app)
                               then max score1 95 else score1)
                         else score1)
           in max 0 (min 100 score2)))"

definition calculate_priority_scores ::
    "predict_method \<Rightarrow> application list \<Rightarrow> (nat \<rightharpoonup> real)" where
  "calculate_priority_scores predictor_predict applications =
     fold (\<lambda>app scores. scores(app_id app \<mapsto> score_application predictor_predict app))
          applications Map.empty"

section \<open>The persisted state\<close>

text \<open>
  Rows of the tables the engine touches. Positive-integer columns are naturals. A
  foreign key is the id of the row it points to, except \<^verbatim>\<open>room.hostel\<close>, which every
  query here loads together with the room (\<^verbatim>\<open>select_related('hostel')\<close>) and which is
  therefore kept inside the room.
\<close>

record hostel =
  hostel_id :: nat
  hostel_name :: string
  gender_type :: string

record room =
  room_id :: nat
  room_hostel :: hostel
  room_number :: string
  capacity :: nat
  current_occupancy :: nat
  is_accessible :: bool
  room_is_active :: bool
  is_under_maintenance :: bool

record bed_space =
  bed_id :: nat
  bed_room :: nat
  space_number :: nat
  is_occupied :: bool
  bed_is_active :: bool

text \<open>
  \<^verbatim>\<open>Allocation.application\<close> is a OneToOneField: the table holds at most one row per
  application, active or cancelled, and inserting a second one raises IntegrityError.
  \<^verbatim>\<open>WaitingList.application\<close> is a OneToOneField as well.
\<close>

record allocation =
  alloc_application :: nat
  alloc_room :: nat
  alloc_bed_space :: "nat option"
  bed_space_number :: "nat option"
  allocated_by :: string
  allocated_by_user :: "nat option"
  allocation_reason :: string
  admin_override :: bool
  alloc_is_active :: bool
  cancellation_reason :: string

record waiting_list_entry =
  wl_application :: nat
  position :: nat
  is_priority :: bool

datatype application_status = Pending | Approved | Rejected | Allocated | Cancelled

text \<open>
  The database: each table as the list of its rows in insertion order, the status
  column of the applications as a map from application ids, and the connection's
  \<^verbatim>\<open>needs_rollback\<close> flag. Inside \<^verbatim>\<open>transaction.atomic()\<close> a failed statement sets the flag;
  from then on every query raises TransactionManagementError, and leaving the block
  rolls the database back to its state at entry.
\<close>

record database =
  rooms :: "room list"
  bed_spaces :: "bed_space list"
  allocations :: "allocation list"
  waiting_list :: "waiting_list_entry list"
  application_status :: "nat \<rightharpoonup> application_status"
  needs_rollback :: bool

definition get_room :: "database \<Rightarrow> nat \<Rightarrow> room option" where
  "get_room db rid = find (\<lambda>r. room_id r = rid) (rooms db)"

definition get_bed_space :: "database \<Rightarrow> nat \<Rightarrow> bed_space option" where
  "get_bed_space db bid = find (\<lambda>b. bed_id b = bid) (bed_spaces db)"

text \<open>\<^verbatim>\<open>obj.save(update_fields=[f])\<close> writes field \<open>f\<close> of the in-memory object to its row.\<close>

definition save_current_occupancy :: "room \<Rightarrow> database \<Rightarrow> database" where
  "save_current_occupancy r db =
     db\<lparr>rooms := map (\<lambda>x. if room_id x = room_id r
                              then x\<lparr>current_occupancy := current_occupancy r\<rparr> else x)
                     (rooms db)\<rparr>"

definition save_is_occupied :: "bed_space \<Rightarrow> database \<Rightarrow> database" where
  "save_is_occupied b db =
     db\<lparr>bed_spaces := map (\<lambda>x. if bed_id x = bed_id b
                                   then x\<lparr>is_occupied := is_occupied b\<rparr> else x)
                          (bed_spaces db)\<rparr>"

definition occupied_bed_count :: "database \<Rightarrow> nat \<Rightarrow> nat" where
  "occupied_bed_count db rid =
     length (filter (\<lambda>b. bed_room b = rid \<and> is_occupied b) (bed_spaces db))"

section \<open>hostels/models.py: Room and BedSpace\<close>

definition available_spaces :: "room \<Rightarrow> int" where
  "available_spaces r = int (capacity r) - int (current_occupancy r)"

definition is_full :: "room \<Rightarrow> bool" where
  "is_full r = (capacity r \<le> current_occupancy r)"

definition is_available :: "room \<Rightarrow> bool" where
  "is_available r = (room_is_active r \<and> \<not> is_under_maintenance r \<and> \<not> is_full r)"

definition can_accommodate :: "room \<Rightarrow> nat \<Rightarrow> bool" where
  "can_accommodate r count = (int count \<le> available_spaces r)"

text \<open>
  \<^verbatim>\<open>Room.increment_occupancy\<close> and \<^verbatim>\<open>decrement_occupancy\<close> with the default count 1: the
  method's return value, the mutated object and the database after the save.
\<close>

definition increment_occupancy :: "room \<Rightarrow> database \<Rightarrow> bool \<times> room \<times> database" where
  "increment_occupancy r db =
     (if can_accommodate r 1
      then (let r' = r\<lparr>current_occupancy := current_occupancy r + 1\<rparr>
            in (True, r', save_current_occupancy r' db))
      else (False, r, db))"

definition decrement_occupancy :: "room \<Rightarrow> database \<Rightarrow> bool \<times> room \<times> database" where
  "decrement_occupancy r db =
     (if 1 \<le> current_occupancy r
      then (let r' = r\<lparr>current_occupancy := current_occupancy r - 1\<rparr>
            in (True, r', save_current_occupancy r' db))
      else (False, r, db))"

text \<open>
  \<^verbatim>\<open>BedSpace.allocate\<close> and \<^verbatim>\<open>deallocate\<close>. The second argument is the object
  \<^verbatim>\<open>self.room\<close> evaluates to; the caller says which one that is.
\<close>

definition allocate :: "bed_space \<Rightarrow> room \<Rightarrow> database \<Rightarrow> bool \<times> bed_space \<times> room \<times> database" where
  "allocate b self_room db =
     (if \<not> is_occupied b \<and> bed_is_active b
      then (let b' = b\<lparr>is_occupied := True\<rparr>;
                db1 = save_is_occupied b' db;
                (ok, r', db2) = increment_occupancy self_room db1
            in (True, b', r', db2))
      else (False, b, self_room, db))"

definition deallocate :: "bed_space \<Rightarrow> room \<Rightarrow> database \<Rightarrow> bool \<times> bed_space \<times> room \<times> database" where
  "deallocate b self_room db =
     (if is_occupied b
      then (let b' = b\<lparr>is_occupied := False\<rparr>;
                db1 = save_is_occupied b' db;
                (ok, r', db2) = decrement_occupancy self_room db1
            in (True, b', r', db2))
      else (False, b, self_room, db))"

section \<open>allocation/models.py: Allocation; applications/models.py: Application, WaitingList\<close>

text \<open>\<^verbatim>\<open>Allocation.objects.create(...)\<close> under the one-row-per-application constraint.\<close>

definition create_allocation :: "allocation \<Rightarrow> database \<Rightarrow> error + database" where
  "create_allocation a db =
     (if needs_rollback db then Inl TransactionManagementError
      else if alloc_application a \<in> set (map alloc_application (allocations db))
      then Inl IntegrityError
      else Inr (db\<lparr>allocations := allocations db @ [a]\<rparr>))"

definition mark_allocated :: "application \<Rightarrow> database \<Rightarrow> database" where
  "mark_allocated app db =
     db\<lparr>application_status := (application_status db)(app_id app \<mapsto> Allocated)\<rparr>"

text \<open>
  \<^verbatim>\<open>Allocation.cancel(reason)\<close>: the row is kept and flagged inactive. The bed space is
  freed only through the \<^verbatim>\<open>bed_space\<close> foreign key; \<^verbatim>\<open>self.bed_space\<close> and its
  \<^verbatim>\<open>room\<close> are loaded from the database when first read.
\<close>

definition cancel :: "allocation \<Rightarrow> string \<Rightarrow> database \<Rightarrow> error + database" where
  "cancel a reason db =
     (let db1 = db\<lparr>allocations :=
                    map (\<lambda>x. if alloc_application x = alloc_application a
                              then x\<lparr>alloc_is_active := False, cancellation_reason := reason\<rparr>
                              else x)
                        (allocations db)\<rparr>
      in case alloc_bed_space a of
           None \<Rightarrow> Inr db1
         | Some bid \<Rightarrow>
             (case get_bed_space db1 bid of
                None \<Rightarrow> Inl DoesNotExist
              | Some b \<Rightarrow>
                  if is_occupied b
                  then (case get_room db1 (bed_room b) of
                          None \<Rightarrow> Inl DoesNotExist
                        | Some r \<Rightarrow>
                            (let (ok, b', r', db2) = deallocate b r db1 in Inr db2))
                  else Inr db1))"

text \<open>
  The default order of \<^verbatim>\<open>WaitingList\<close> queries, \<^verbatim>\<open>Meta.ordering = ['is_priority',
  'position', 'added_at']\<close>, all ascending (\<open>False\<close> sorts before \<open>True\<close>). \<^verbatim>\<open>added_at\<close> is
  the insertion time, which the stable sort of the rows in insertion order respects.
\<close>

definition waiting_list_ordering :: "database \<Rightarrow> waiting_list_entry list" where
  "waiting_list_ordering db = sort_key (\<lambda>e. (is_priority e, position e)) (waiting_list db)"

section \<open>allocation\_engine.py: AllocationEngine\<close>

record allocation_result =
  res_application_id :: nat
  res_student_id :: nat
  res_room_id :: nat
  res_room_number :: string
  res_hostel_name :: string
  res_bed_space_number :: "nat option"
  success :: bool
  message :: string

text \<open>
  \<^verbatim>\<open>_get_available_rooms_by_gender\<close>: the dict from hostel gender types to the room
  objects of the snapshot; a key the dict lacks maps to the empty list, which is what
  \<^verbatim>\<open>rooms_by_gender.get(gender, [])\<close> reads. \<open>rooms db\<close> lists the rows in the order the
  query returns them.
\<close>

definition get_available_rooms_by_gender :: "database \<Rightarrow> (string \<Rightarrow> room list)" where
  "get_available_rooms_by_gender db =
     (let rs = filter (\<lambda>r. room_is_active r \<and> \<not> is_under_maintenance r) (rooms db)
      in (\<lambda>g. sort_key (\<lambda>r. (\<not> is_accessible r, room_number r))
                 (filter (\<lambda>r. is_available r \<and> gender_type (room_hostel r) = g) rs)))"

text \<open>
  \<^verbatim>\<open>room.bed_spaces.filter(is_occupied=False, is_active=True).first()\<close>: a fresh query, in
  the order of \<^verbatim>\<open>BedSpace.Meta.ordering\<close>, so the free active bed of the room with the
  least \<^verbatim>\<open>space_number\<close>.
\<close>

definition first_free_bed :: "database \<Rightarrow> nat \<Rightarrow> bed_space option" where
  "first_free_bed db rid =
     (case sort_key space_number
             (filter (\<lambda>b. bed_room b = rid \<and> \<not> is_occupied b \<and> bed_is_active b)
                     (bed_spaces db)) of
        [] \<Rightarrow> None
      | b # bs \<Rightarrow> Some b)"

fun find_room_with_bed :: "database \<Rightarrow> room list \<Rightarrow> (room \<times> bed_space) option" where
  "find_room_with_bed db [] = None"
| "find_room_with_bed db (r # rs) =
     (case first_free_bed db (room_id r) of
        Some b \<Rightarrow> Some (r, b)
      | None \<Rightarrow> find_room_with_bed db rs)"

definition failure_result :: "application \<Rightarrow> string \<Rightarrow> allocation_result" where
  "failure_result app msg =
     \<lparr> res_application_id = app_id app, res_student_id = student_id (student app),
       res_room_id = 0, res_room_number = [], res_hostel_name = [],
       res_bed_space_number = None, success = False, message = msg \<rparr>"

text \<open>
  \<^verbatim>\<open>_allocate_single(application, rooms_by_gender)\<close>. The bed spaces returned by the related
  manager of a snapshot room have that very room object as their \<^verbatim>\<open>room\<close>, so
  \<^verbatim>\<open>selected_bed_space.allocate()\<close> increments the snapshot object and saves its counter;
  the snapshot is returned with that object updated. The first query of the search
  raises when the transaction is already broken.
\<close>

definition allocate_single ::
    "application \<Rightarrow> (string \<Rightarrow> room list) \<Rightarrow> database
      \<Rightarrow> error + (allocation_result \<times> (string \<Rightarrow> room list) \<times> database)" where
  "allocate_single app rooms_by_gender db =
     (let st = student app;
          eligible_genders =
            (if gender st = ''M'' then [''male'', ''mixed'']
             else if gender st = ''F'' then [''female'', ''mixed'']
             else [''mixed'']);
          eligible_rooms = concat (map rooms_by_gender eligible_genders)
      in if eligible_rooms = []
         then Inr (failure_result app ''No available rooms matching gender requirements'',
                   rooms_by_gender, db)
         else
           (let accessible_rooms = filter is_accessible eligible_rooms;
                eligible1 = (if disability_status st \<and> accessible_rooms \<noteq> []
                             then accessible_rooms else eligible_rooms);
                eligible2 =
                  (case preferred_hostel app of
                     None \<Rightarrow> eligible1
                   | Some h \<Rightarrow>
                       (let preferred_rooms =
                              filter (\<lambda>r. hostel_id (room_hostel r) = h) eligible1
                        in if preferred_rooms \<noteq> [] then preferred_rooms else eligible1))
            in if needs_rollback db then Inl TransactionManagementError
               else
                 (case find_room_with_bed db eligible2 of
                    None \<Rightarrow> Inr (failure_result app ''No available bed spaces'',
                                 rooms_by_gender, db)
                  | Some (selected_room, selected_bed_space) \<Rightarrow>
                      (let (ok, b', r', db') = allocate selected_bed_space selected_room db;
                           rooms_by_gender' =
                             (\<lambda>g. map (\<lambda>r. if room_id r = room_id r' then r' else r)
                                       (rooms_by_gender g))
                       in Inr (\<lparr> res_application_id = app_id app,
                                  res_student_id = student_id st,
                                  res_room_id = room_id selected_room,
                                  res_room_number = room_number selected_room,
                                  res_hostel_name = hostel_name (room_hostel selected_room),
                                  res_bed_space_number = Some (space_number selected_bed_space),
                                  success = True,
                                  message = ''Allocated to ''
                                    @ hostel_name (room_hostel selected_room)
                                    @ '', Room '' @ room_number selected_room \<rparr>,
                               rooms_by_gender', db')))))"

text \<open>
  The state of the loop of \<^verbatim>\<open>allocate_batch\<close>: the two result lists, the snapshot and
  the database.
\<close>

record batch_state =
  successful :: "allocation_result list"
  waiting :: "application list"
  snapshot :: "string \<Rightarrow> room list"
  db_of :: database

text \<open>
  One iteration of the loop, the \<^verbatim>\<open>try\<close> block and its \<^verbatim>\<open>except Exception\<close>. The result
  is appended to \<^verbatim>\<open>successful\<close> before the allocation row is inserted; an exception
  raised after that point appends the application to \<^verbatim>\<open>waiting_list\<close> too. The failed
  insert marks the transaction for rollback.
\<close>

definition allocate_step :: "application \<Rightarrow> batch_state \<Rightarrow> batch_state" where
  "allocate_step app s =
     (case allocate_single app (snapshot s) (db_of s) of
        Inl e \<Rightarrow> s\<lparr>waiting := waiting s @ [app]\<rparr>
      | Inr (result, snapshot1, db1) \<Rightarrow>
          if success result
          then
            (let s1 = s\<lparr>successful := successful s @ [result],
                        snapshot := snapshot1, db_of := db1\<rparr>
             in case create_allocation
                       \<lparr> alloc_application = app_id app,
                         alloc_room = res_room_id result,
                         alloc_bed_space = None,
                         bed_space_number = res_bed_space_number result,
                         allocated_by = ''AI_System'',
                         allocated_by_user = None,
                         allocation_reason = message result,
                         admin_override = False,
                         alloc_is_active = True,
                         cancellation_reason = [] \<rparr> db1 of
                  Inl e \<Rightarrow>
                    s1\<lparr>waiting := waiting s @ [app],
                       db_of := db1\<lparr>needs_rollback := True\<rparr>\<rparr>
                | Inr db2 \<Rightarrow>
                    (let db3 = mark_allocated app db2
                     in case get_room db3 (res_room_id result) of
                          None \<Rightarrow> s1\<lparr>waiting := waiting s @ [app], db_of := db3\<rparr>
                        | Some fresh_room \<Rightarrow>
                            (let (ok, r', db4) = increment_occupancy fresh_room db3
                             in s1\<lparr>db_of := db4\<rparr>)))
          else s\<lparr>waiting := waiting s @ [app], snapshot := snapshot1, db_of := db1\<rparr>)"

fun allocate_loop :: "application list \<Rightarrow> batch_state \<Rightarrow> batch_state" where
  "allocate_loop [] s = s"
| "allocate_loop (app # apps) s = allocate_loop apps (allocate_step app s)"

text \<open>\<^verbatim>\<open>sorted(xs, key=k, reverse=True)\<close>: descending by key, equal keys in their given order.\<close>

definition sorted_reverse :: "('a \<Rightarrow> 'k::linorder) \<Rightarrow> 'a list \<Rightarrow> 'a list" where
  "sorted_reverse k xs = rev (sort_key k (rev xs))"

definition sort_applications :: "(nat \<rightharpoonup> real) \<Rightarrow> application list \<Rightarrow> application list" where
  "sort_applications scores applications =
     sorted_reverse
       (\<lambda>a. (case scores (app_id a) of Some v \<Rightarrow> v | None \<Rightarrow> 0, application_date a))
       applications"

text \<open>Step 5: \<^verbatim>\<open>WaitingList.objects.create\<close> for \<^verbatim>\<open>enumerate(waiting_list, 1)\<close>, outside the transaction.\<close>

fun create_waiting_list_entries ::
    "nat \<Rightarrow> application list \<Rightarrow> database \<Rightarrow> error + database" where
  "create_waiting_list_entries pos [] db = Inr db"
| "create_waiting_list_entries pos (app # apps) db =
     (if app_id app \<in> set (map wl_application (waiting_list db)) then Inl IntegrityError
      else create_waiting_list_entries (Suc pos) apps
             (db\<lparr>waiting_list := waiting_list db @
                   [\<lparr> wl_application = app_id app, position = pos,
                      is_priority = disability_status (student app) \<rparr>]\<rparr>))"

text \<open>
  \<^verbatim>\<open>allocate_batch(applications, academic_session)\<close> of an engine built without a run
  record: the pair the method returns, and the database it leaves.
\<close>

definition allocate_batch ::
    "predict_method \<Rightarrow> application list \<Rightarrow> database
      \<Rightarrow> error + (allocation_result list \<times> application list \<times> database)" where
  "allocate_batch predictor_predict applications db =
     (let scores = calculate_priority_scores predictor_predict applications;
          sorted_apps = sort_applications scores applications;
          rooms_by_gender = get_available_rooms_by_gender db;
          s = allocate_loop sorted_apps
                \<lparr> successful = [], waiting = [], snapshot = rooms_by_gender, db_of = db \<rparr>;
          db1 = (if needs_rollback (db_of s) then db else db_of s)
      in case create_waiting_list_entries 1 (waiting s) db1 of
           Inl e \<Rightarrow> Inl e
         | Inr db2 \<Rightarrow> Inr (successful s, waiting s, db2))"

text \<open>
  \<^verbatim>\<open>manual_override(application, room, bed_space, admin_user, reason)\<close>, one atomic block:
  an exception leaves the database as it was. \<^verbatim>\<open>application.allocation\<close> is the row of the
  application whatever its \<^verbatim>\<open>is_active\<close>; \<^verbatim>\<open>bed_space.room\<close> is loaded from the database
  when \<^verbatim>\<open>allocate\<close> reads it.
\<close>

definition manual_override ::
    "application \<Rightarrow> room \<Rightarrow> bed_space option \<Rightarrow> nat option \<Rightarrow> string \<Rightarrow> database
      \<Rightarrow> error + (allocation \<times> database)" where
  "manual_override app rm bed admin_user reason db =
     (case (case find (\<lambda>a. alloc_application a = app_id app) (allocations db) of
              None \<Rightarrow> Inr db
            | Some existing \<Rightarrow> cancel existing ''Overridden by admin'' db) of
        Inl e \<Rightarrow> Inl e
      | Inr db1 \<Rightarrow>
          (let new = \<lparr> alloc_application = app_id app,
                       alloc_room = room_id rm,
                       alloc_bed_space = map_option bed_id bed,
                       bed_space_number = map_option space_number bed,
                       allocated_by = ''Admin_User'',
                       allocated_by_user = admin_user,
                       allocation_reason = reason,
                       admin_override = True,
                       alloc_is_active = True,
                       cancellation_reason = [] \<rparr>
           in case create_allocation new db1 of
                Inl e \<Rightarrow> Inl e
              | Inr db2 \<Rightarrow>
                  (let db3 = mark_allocated app db2
                   in case bed of
                        None \<Rightarrow>
                          (let (ok, r', db4) = increment_occupancy rm db3 in Inr (new, db4))
                      | Some b \<Rightarrow>
                          if \<not> is_occupied b \<and> bed_is_active b
                          then (case get_room db3 (bed_room b) of
                                  None \<Rightarrow> Inl DoesNotExist
                                | Some r \<Rightarrow>
                                    (let (ok, b', r', db4) = allocate b r db3
                                     in Inr (new, db4)))
                          else Inr (new, db3))))"

section \<open>Concrete inputs\<close>

text \<open>
  Inputs at which the theorems below are evaluated. \<open>adjusted_score_spec\<close> is the
  adjustment of \<^verbatim>\<open>calculate_priority_scores\<close> as it is described in words: the seniority
  multiplier first, the disability floor second, the clamp last.
\<close>

definition adjusted_score_spec :: "int \<Rightarrow> bool \<Rightarrow> real \<Rightarrow> real" where
  "adjusted_score_spec lvl disabled s =
     (let boosted = (if lvl = 400 \<or> lvl = 500 then s * (12 / 10) else s);
          floored = (if disabled then max boosted 95 else boosted)
      in clamp_score floored)"

definition unloaded_predictor :: predictor where
  "unloaded_predictor =
     \<lparr> predictor_model = None, predictor_scaler = None, predictor_version = ''v1.0.0'' \<rparr>"

definition constant_model :: "real \<Rightarrow> ml_model" where
  "constant_model y =
     \<lparr> model_predict = (\<lambda>X. Inr y), model_confidence = (\<lambda>X. 9 / 10),
       model_feature_importance = [] \<rparr>"

definition loaded_predictor :: predictor where
  "loaded_predictor =
     \<lparr> predictor_model = Some (constant_model 250), predictor_scaler = None,
       predictor_version = ''v1.0.0'' \<rparr>"


definition constant_predict :: "real \<Rightarrow> predict_method" where
  "constant_predict y =
     (\<lambda>p use_domain_knowledge.
        Inr \<lparr> priority_score = y, confidence = 9 / 10, feature_importance = [],
              model_version = ''stub'', scoring_method = ''ml_model'', raw_score = y \<rparr>)"

definition senior_disabled :: student_profile where
  "senior_disabled =
     \<lparr> student_id = 7, current_gpa = Some 5, level = 500, gender = ''F'',
       distance_from_campus = Some 100000, disability_status = True,
       financial_aid_status = True \<rparr>"

definition senior_disabled_app :: application where
  "senior_disabled_app =
     \<lparr> app_id = 7, student = senior_disabled, preferred_hostel = None,
       application_date = 3 \<rparr>"

definition third_year :: student_profile where
  "third_year =
     \<lparr> student_id = 1, current_gpa = Some (7 / 2), level = 300, gender = ''M'',
       distance_from_campus = Some 10, disability_status = False,
       financial_aid_status = False \<rparr>"

definition third_year_record :: student_record where
  "third_year_record =
     \<lparr> entries = [''level'' \<mapsto> 300, ''gpa'' \<mapsto> 7 / 2, ''distance'' \<mapsto> 10,
                  ''disability'' \<mapsto> 0, ''financial_aid'' \<mapsto> 0],
       gender_entry = Some ''M'' \<rparr>"


text \<open>Rooms, beds, applications and databases for the engine.\<close>

definition unity_hall :: hostel where
  "unity_hall = \<lparr> hostel_id = 1, hostel_name = ''Unity Hall'', gender_type = ''mixed'' \<rparr>"

definition room_101 :: room where
  "room_101 =
     \<lparr> room_id = 1, room_hostel = unity_hall, room_number = ''101'', capacity = 4,
       current_occupancy = 0, is_accessible = False, room_is_active = True,
       is_under_maintenance = False \<rparr>"

definition bed :: "nat \<Rightarrow> bool \<Rightarrow> bed_space" where
  "bed n occ =
     \<lparr> bed_id = n, bed_room = 1, space_number = n, is_occupied = occ, bed_is_active = True \<rparr>"

definition third_year_app :: application where
  "third_year_app =
     \<lparr> app_id = 1, student = third_year, preferred_hostel = None, application_date = 1 \<rparr>"

definition classmate_app :: application where
  "classmate_app =
     \<lparr> app_id = 2, student = third_year\<lparr>student_id := 2\<rparr>, preferred_hostel = None,
       application_date = 2 \<rparr>"

text \<open>One mixed room of capacity 4, nobody in it, its four beds free.\<close>

definition one_room_db :: database where
  "one_room_db =
     \<lparr> rooms = [room_101],
       bed_spaces = [bed 1 False, bed 2 False, bed 3 False, bed 4 False],
       allocations = [], waiting_list = [], application_status = Map.empty,
       needs_rollback = False \<rparr>"

text \<open>The same room with three beds taken: one bed is left.\<close>

definition one_bed_left_db :: database where
  "one_bed_left_db =
     \<lparr> rooms = [room_101\<lparr>current_occupancy := 3\<rparr>],
       bed_spaces = [bed 1 True, bed 2 True, bed 3 True, bed 4 False],
       allocations = [], waiting_list = [], application_status = Map.empty,
       needs_rollback = False \<rparr>"

text \<open>
  The empty room again, while application 1 still has the row of an earlier allocation
  that was cancelled (\<^verbatim>\<open>cancel\<close> keeps the row).
\<close>

definition cancelled_allocation :: allocation where
  "cancelled_allocation =
     \<lparr> alloc_application = 1, alloc_room = 1, alloc_bed_space = None,
       bed_space_number = Some 1, allocated_by = ''AI_System'', allocated_by_user = None,
       allocation_reason = ''Allocated to Unity Hall, Room 101'', admin_override = False,
       alloc_is_active = False, cancellation_reason = ''withdrawn'' \<rparr>"

definition reapplied_db :: database where
  "reapplied_db = one_room_db\<lparr>allocations := [cancelled_allocation]\<rparr>"

text \<open>Application 1 holds bed 1 of the room through an active allocation.\<close>

definition active_allocation :: allocation where
  "active_allocation =
     \<lparr> alloc_application = 1, alloc_room = 1, alloc_bed_space = Some 1,
       bed_space_number = Some 1, allocated_by = ''Admin_User'', allocated_by_user = Some 9,
       allocation_reason = ''first come'', admin_override = False,
       alloc_is_active = True, cancellation_reason = [] \<rparr>"

definition occupied_db :: database where
  "occupied_db =
     \<lparr> rooms = [room_101\<lparr>current_occupancy := 1\<rparr>],
       bed_spaces = [bed 1 True, bed 2 False, bed 3 False, bed 4 False],
       allocations = [active_allocation], waiting_list = [],
       application_status = [1 \<mapsto> Allocated, 2 \<mapsto> Pending],
       needs_rollback = False \<rparr>"

text \<open>No room at all; a disabled second-year student and a fourth-year student without disability.\<close>

definition no_rooms_db :: database where
  "no_rooms_db =
     \<lparr> rooms = [], bed_spaces = [], allocations = [], waiting_list = [],
       application_status = Map.empty, needs_rollback = False \<rparr>"

definition disabled_app :: application where
  "disabled_app =
     \<lparr> app_id = 1,
       student = \<lparr> student_id = 1, current_gpa = Some 3, level = 200, gender = ''F'',
                   distance_from_campus = Some 40, disability_status = True,
                   financial_aid_status = False \<rparr>,
       preferred_hostel = None, application_date = 1 \<rparr>"

definition fourth_year_app :: application where
  "fourth_year_app =
     \<lparr> app_id = 2,
       student = \<lparr> student_id = 2, current_gpa = Some 4, level = 400, gender = ''F'',
                   distance_from_campus = Some 40, disability_status = False,
                   financial_aid_status = False \<rparr>,
       preferred_hostel = None, application_date = 2 \<rparr>"

section \<open>Scoring: rounding and ranges\<close>




lemma py_round_exact: "py_round (real_of_int k / 10 ^ n) n = real_of_int k / 10 ^ n"
  by (simp add: py_round_def round_half_even_def)




text \<open>
  Whatever predictor is installed, \<^verbatim>\<open>predict\<close> on a profile object with the fallback
  allowed ends in the TypeError of subscripting the profile: in the model path (caught),
  then again in the domain-knowledge path (not caught).
\<close>

lemma predict_profile_raises: "predict pr (Profile p) True = Inl TypeError"
  by (auto simp add: predict_def Let_def ml_predict_def prepare_model_input_def
      FEATURE_ORDER_def getitem_def domain_knowledge_predict_def
      generate_synthetic_priority_score_def split: option.splits sum.splits)

lemma predict_loaded_record:
  "predict loaded_predictor (Record third_year_record) fb =
     Inr \<lparr> priority_score = 100, confidence = 9 / 10, feature_importance = [],
           model_version = ''v1.0.0'', scoring_method = ''ml_model'', raw_score = 250 \<rparr>"
  using py_round_exact[of 10000 2] py_round_exact[of 9000 4] py_round_exact[of 25000 2]
  by (simp add: predict_def loaded_predictor_def constant_model_def third_year_record_def
      ml_predict_def prepare_model_input_def FEATURE_ORDER_def getitem_def
      v2_extract_features_from_dict_def MIN_PRIORITY_SCORE_def MAX_PRIORITY_SCORE_def Let_def)



section \<open>C6: the domain-knowledge score is the weighted sum\<close>

text \<open>
  C6. On a feature dict holding the normalised GPA \<open>g\<close>, the transformed distance \<open>d\<close>,
  the encoded level \<open>l\<close> and the two need flags as \<^verbatim>\<open>encode_binary\<close> writes them,
  \<^verbatim>\<open>generate_synthetic_priority_score\<close> returns the weighted sum of the specification:
  40 per cent GPA, 30 per cent distance, 20 per cent of one fifth of the level, the full
  10 per cent when the disability flag or the financial-aid flag is set, each on a
  0 to 100 scale, clamped to 0..100. \<^verbatim>\<open>_domain_knowledge_predict\<close> reports that score
  rounded to two decimals.
\<close>

theorem fallback_score_is_weighted_sum:
  assumes "f ''gpa_normalized'' = Some g"
    and "f ''distance_transformed'' = Some d"
    and "f ''level_encoded'' = Some l"
    and "f ''disability_flag'' = Some (real_of_int (encode_binary dis))"
    and "f ''financial_aid_flag'' = Some (real_of_int (encode_binary fin))"
  shows "generate_synthetic_priority_score (FeatureDict f) =
           Inr (weighted_sum_spec g d l dis fin)
         \<and> map_sum id priority_score (domain_knowledge_predict (FeatureDict f)) =
           Inr (py_round (weighted_sum_spec g d l dis fin) 2)"
proof -
  have "generate_synthetic_priority_score (FeatureDict f) =
          Inr (weighted_sum_spec g d l dis fin)"
    using assms
    by (simp add: generate_synthetic_priority_score_def getitem_def weighted_sum_spec_def
        clamp_score_def weight_gpa_def weight_distance_def weight_level_def
        weight_need_based_def encode_binary_def Let_def)
  then show ?thesis by (simp add: domain_knowledge_predict_def)
qed

theorem fallback_score_is_weighted_sum_witness:
  "extract_features_from_dict (entries third_year_record) ''gpa_normalized'' = Some (7 / 10)
   \<and> extract_features_from_dict (entries third_year_record) ''distance_transformed''
       = Some (1 / 50)
   \<and> extract_features_from_dict (entries third_year_record) ''level_encoded'' = Some 3
   \<and> extract_features_from_dict (entries third_year_record) ''disability_flag''
       = Some (real_of_int (encode_binary False))
   \<and> extract_features_from_dict (entries third_year_record) ''financial_aid_flag''
       = Some (real_of_int (encode_binary False))
   \<and> generate_synthetic_priority_score
        (FeatureDict (extract_features_from_dict (entries third_year_record))) =
       Inr (weighted_sum_spec (7 / 10) (1 / 50) 3 False False)
   \<and> weighted_sum_spec (7 / 10) (1 / 50) 3 False False = 203 / 5"
  using fallback_score_is_weighted_sum
          [of "extract_features_from_dict (entries third_year_record)"
              "7 / 10" "1 / 50" 3 False False]
  by (simp add: extract_features_from_dict_def third_year_record_def get_or_def truthy_def
      normalize_gpa_def encode_level_def
      transform_distance_def encode_binary_def MIN_GPA_def MAX_GPA_def max_distance_cap_def
      weighted_sum_spec_def clamp_score_def)

section \<open>C7: scores lie in 0..100\<close>





section \<open>C9: no model and no fallback\<close>

text \<open>
  C9. When no trained model is loaded and the fallback flag is false, \<^verbatim>\<open>predict\<close> raises
  \<^verbatim>\<open>ModelNotTrainedError\<close> for either input shape, so it returns no score; the error is a
  constructor of its own, distinct from the failure of a model call and from the
  generic TypeError and KeyError.
\<close>

theorem predict_without_model_raises:
  assumes "\<not> is_model_loaded pr"
  shows "predict pr student_features False = Inl ModelNotTrainedError
         \<and> predict pr student_features False \<noteq> Inr result
         \<and> ModelNotTrainedError \<noteq> ModelFailure
         \<and> ModelNotTrainedError \<noteq> TypeError
         \<and> ModelNotTrainedError \<noteq> KeyError"
  using assms by (simp add: predict_def is_model_loaded_def Let_def)

theorem predict_without_model_raises_witness:
  "\<not> is_model_loaded unloaded_predictor
   \<and> predict unloaded_predictor (Record third_year_record) False = Inl ModelNotTrainedError
   \<and> predict unloaded_predictor (Profile third_year) False = Inl ModelNotTrainedError"
proof -
  have h: "\<not> is_model_loaded unloaded_predictor"
    by (simp add: is_model_loaded_def unloaded_predictor_def)
  from predict_without_model_raises[OF h, of "Record third_year_record"]
       predict_without_model_raises[OF h, of "Profile third_year"] h
  show ?thesis by simp
qed

section \<open>C10: the adjustments of calculate\_priority\_scores\<close>

lemma score_application_eq:
  "score_application pm app =
     (case pm (student app) True of
        Inl e \<Rightarrow> 0
      | Inr result \<Rightarrow>
          adjusted_score_spec (level (student app)) (disability_status (student app))
            (priority_score result))"
  by (auto simp: score_application_def adjusted_score_spec_def clamp_score_def
      seniority_boost_def disability_priority_def truthy_def Let_def split: sum.splits)

lemma fold_scores_other:
  "k \<notin> app_id ` set apps \<Longrightarrow>
   fold (\<lambda>app scores. scores(app_id app \<mapsto> f app)) apps m k = m k"
  by (induction apps arbitrary: m) auto

lemma fold_scores_lookup:
  "inj_on app_id (set apps) \<Longrightarrow> app \<in> set apps \<Longrightarrow>
   fold (\<lambda>app scores. scores(app_id app \<mapsto> f app)) apps m (app_id app) = Some (f app)"
proof (induction apps arbitrary: m)
  case Nil
  then show ?case by simp
next
  case (Cons a apps)
  have inj: "inj_on app_id (set apps)"
    using Cons.prems(1) by (auto intro: inj_on_subset)
  show ?case
  proof (cases "app \<in> set apps")
    case True
    then show ?thesis using Cons.IH[OF inj] by simp
  next
    case False
    with Cons.prems(2) have eq: "app = a" by simp
    have "app_id a \<notin> app_id ` set apps"
    proof
      assume "app_id a \<in> app_id ` set apps"
      then obtain b where b: "b \<in> set apps" "app_id b = app_id a" by auto
      have "b \<in> set (a # apps)" "a \<in> set (a # apps)" using b(1) by simp_all
      with b(2) have "b = a" by (rule inj_onD[OF Cons.prems(1)])
      with b(1) False eq show False by simp
    qed
    then have "fold (\<lambda>app scores. scores(app_id app \<mapsto> f app)) apps
                 (m(app_id a \<mapsto> f a)) (app_id a) = (m(app_id a \<mapsto> f a)) (app_id a)"
      by (rule fold_scores_other)
    then show ?thesis unfolding eq by (simp only: fold_simps comp_apply fun_upd_same)
  qed
qed

text \<open>
  C10, as stated, fails: the engine's own predictor raises on every profile object, the
  \<^verbatim>\<open>except\<close> branch stores 0.0, and a student with \<^verbatim>\<open>disability_status\<close> set ends with the
  score 0, not with 95 or more.
\<close>

theorem disabled_student_scored_zero:
  "disability_status (student senior_disabled_app)
   \<and> calculate_priority_scores (repo_predictor unloaded_predictor) [senior_disabled_app]
        (app_id senior_disabled_app) = Some 0"
  by (simp add: calculate_priority_scores_def score_application_def repo_predictor_def
      predict_profile_raises senior_disabled_app_def senior_disabled_def)

text \<open>
  C10, amended. For applications told apart by their ids, the score stored for an
  application is 0 when the predictor raises for its student; when the predictor returns
  a prediction, it is the predicted score multiplied by 1.2 for a student at level 400 or
  500, then raised to at least 95 for a student with \<^verbatim>\<open>disability_status\<close> set, then clamped
  to 0..100. The adjusted score of a disabled student lies in 95..100 whatever the
  predicted score and level.
\<close>

theorem calculate_priority_scores_adjusts:
  assumes "inj_on app_id (set applications)" and "app \<in> set applications"
  shows "calculate_priority_scores pm applications (app_id app) =
           Some (case pm (student app) True of
                   Inl e \<Rightarrow> 0
                 | Inr result \<Rightarrow>
                     adjusted_score_spec (level (student app))
                       (disability_status (student app)) (priority_score result))
         \<and> 95 \<le> adjusted_score_spec lvl True s \<and> adjusted_score_spec lvl True s \<le> 100"
proof -
  have "calculate_priority_scores pm applications (app_id app) =
          Some (score_application pm app)"
    unfolding calculate_priority_scores_def
    by (rule fold_scores_lookup[OF assms])
  then show ?thesis
    by (simp add: score_application_eq)
       (simp add: adjusted_score_spec_def clamp_score_def Let_def)
qed

theorem calculate_priority_scores_adjusts_witness:
  "inj_on app_id (set [senior_disabled_app])
   \<and> senior_disabled_app \<in> set [senior_disabled_app]
   \<and> calculate_priority_scores (constant_predict 50) [senior_disabled_app] 7 = Some 95
   \<and> calculate_priority_scores (repo_predictor unloaded_predictor) [senior_disabled_app] 7
       = Some 0
   \<and> adjusted_score_spec 500 False 50 = 60"
  using calculate_priority_scores_adjusts
          [of "[senior_disabled_app]" senior_disabled_app "constant_predict 50"]
        calculate_priority_scores_adjusts
          [of "[senior_disabled_app]" senior_disabled_app "repo_predictor unloaded_predictor"]
  by (simp add: senior_disabled_app_def senior_disabled_def constant_predict_def
      adjusted_score_spec_def clamp_score_def repo_predictor_def predict_profile_raises)

section \<open>C8: the two input shapes of predict\<close>

text \<open>
  C8 fails on the code. The same third-year student (level 300, GPA 3.5, 10 km, no
  flags, gender M) is scored by a loaded model when presented as a dict, and raises when
  presented as a profile object: \<^verbatim>\<open>ModelNotTrainedError\<close> without the fallback, TypeError
  with it. The two extractors of FeatureEngineerV2 disagree as well: the profile
  extractor reads the attribute \<^verbatim>\<open>current_level\<close>, which a StudentProfile lacks, and
  yields level 100 where the dict extractor yields 300.
\<close>

theorem predict_shapes_diverge:
  "predict loaded_predictor (Record third_year_record) False =
     Inr \<lparr> priority_score = 100, confidence = 9 / 10, feature_importance = [],
           model_version = ''v1.0.0'', scoring_method = ''ml_model'', raw_score = 250 \<rparr>
   \<and> predict loaded_predictor (Profile third_year) False = Inl ModelNotTrainedError
   \<and> predict loaded_predictor (Profile third_year) True = Inl TypeError
   \<and> v2_extract_features_from_dict third_year_record ''level'' = Some 300
   \<and> extract_features_from_profile third_year ''level'' = Some 100"
proof -
  have "predict loaded_predictor (Profile third_year) False = Inl ModelNotTrainedError"
    by (simp add: predict_def loaded_predictor_def ml_predict_def prepare_model_input_def
        FEATURE_ORDER_def getitem_def Let_def)
  moreover have "v2_extract_features_from_dict third_year_record ''level'' = Some 300"
    by (simp add: v2_extract_features_from_dict_def third_year_record_def get2_def
        get_or_def Let_def)
  moreover have "extract_features_from_profile third_year ''level'' = Some 100"
    by (simp add: extract_features_from_profile_def Let_def)
  ultimately show ?thesis
    by (simp add: predict_loaded_record predict_profile_raises)
qed

section \<open>The engine at concrete inputs\<close>

lemmas example_defs =
  unloaded_predictor_def constant_predict_def third_year_def unity_hall_def room_101_def
  bed_def third_year_app_def classmate_app_def one_room_db_def one_bed_left_db_def
  cancelled_allocation_def reapplied_db_def active_allocation_def occupied_db_def
  no_rooms_db_def disabled_app_def fourth_year_app_def

lemmas engine_defs =
  allocate_batch_def calculate_priority_scores_def score_application_def repo_predictor_def
  sort_applications_def sorted_reverse_def get_available_rooms_by_gender_def
  allocate_step_def allocate_single_def first_free_bed_def allocate_def
  increment_occupancy_def can_accommodate_def available_spaces_def save_is_occupied_def
  save_current_occupancy_def create_allocation_def mark_allocated_def get_room_def
  is_available_def is_full_def failure_result_def occupied_bed_count_def
  seniority_boost_def disability_priority_def truthy_def waiting_list_ordering_def

section \<open>C1: occupancy counter and occupied beds\<close>

text \<open>
  C1 fails on the code. \<^verbatim>\<open>BedSpace.allocate\<close> by itself keeps the counter in step with
  the beds: on the empty room it occupies bed 1 and stores the counter 1. The placement
  step of \<^verbatim>\<open>allocate_batch\<close> calls it inside \<^verbatim>\<open>_allocate_single\<close> and then calls
  \<^verbatim>\<open>room.increment_occupancy()\<close> once more on the freshly read room: after a batch of one
  application, one bed of the room is occupied and the room's \<^verbatim>\<open>current_occupancy\<close> is 2.
\<close>

theorem batch_placement_counts_twice:
  "(case allocate (bed 1 False) room_101 one_room_db of
      (ok, b', r', d) \<Rightarrow>
        ok \<and> occupied_bed_count d 1 = 1 \<and> map current_occupancy (rooms d) = [1])
   \<and> (case allocate_batch (repo_predictor unloaded_predictor) [third_year_app] one_room_db of
        Inr (placed, unplaced, d) \<Rightarrow>
          map res_bed_space_number placed = [Some 1] \<and> unplaced = []
          \<and> map is_occupied (bed_spaces d) = [True, False, False, False]
          \<and> occupied_bed_count d 1 = 1
          \<and> map current_occupancy (rooms d) = [2]
      | Inl e \<Rightarrow> False)"
  by (simp add: engine_defs example_defs predict_profile_raises Let_def)

section \<open>C2: the processing order\<close>

text \<open>
  C2 fails on the code. Two applications with the same score 80, the first submitted at
  time 1 and the second at time 2: \<^verbatim>\<open>sorted(..., reverse=True)\<close> on the pair (score, date)
  reverses the dates too and puts the later application first. With one bed left, the
  later applicant gets it and the earlier one goes to the waiting list.
\<close>

theorem later_application_processed_first:
  "calculate_priority_scores (constant_predict 80) [third_year_app, classmate_app] 1 = Some 80
   \<and> calculate_priority_scores (constant_predict 80) [third_year_app, classmate_app] 2 = Some 80
   \<and> application_date third_year_app < application_date classmate_app
   \<and> sort_applications
        (calculate_priority_scores (constant_predict 80) [third_year_app, classmate_app])
        [third_year_app, classmate_app] = [classmate_app, third_year_app]
   \<and> (case allocate_batch (constant_predict 80) [third_year_app, classmate_app]
               one_bed_left_db of
        Inr (placed, unplaced, d) \<Rightarrow>
          map res_application_id placed = [2] \<and> unplaced = [third_year_app]
      | Inl e \<Rightarrow> False)"
  by (simp add: engine_defs example_defs Let_def)

section \<open>C3: the two result lists\<close>

text \<open>
  C3 fails on the code. Application 1 still has the row of a cancelled allocation. The
  batch finds a free bed for it and appends the result to \<^verbatim>\<open>successful\<close>; the insert of the
  new allocation row then violates the one-row-per-application constraint, and the
  \<^verbatim>\<open>except\<close> branch appends the application to \<^verbatim>\<open>waiting_list\<close> as well: one input
  application, one successful result and one waiting-list entry, both for application 1.
\<close>

theorem application_in_both_lists:
  "length [third_year_app] = 1
   \<and> (case allocate_batch (repo_predictor unloaded_predictor) [third_year_app] reapplied_db of
        Inr (placed, unplaced, d) \<Rightarrow>
          map res_application_id placed = [1] \<and> map app_id unplaced = [1]
          \<and> length placed + length unplaced = 2
          \<and> map wl_application (waiting_list d) = [1]
      | Inl e \<Rightarrow> False)"
  by (simp add: engine_defs example_defs predict_profile_raises Let_def)

section \<open>C4: waiting-list positions\<close>











section \<open>C5: manual override\<close>

text \<open>
  C5 fails on the code. Bed 1 is occupied through the active allocation of application
  1. An override of application 2 onto that bed creates an active allocation flagged
  \<^verbatim>\<open>admin_override\<close> whose bed space is bed 1: \<^verbatim>\<open>bed_space.allocate()\<close> returns False on the
  occupied bed and the result is dropped, so two active allocations name the same bed.
  And an override of application 1, which already has an allocation row, cancels that
  row and then fails to insert the new one (one row per application): the block rolls
  back and no override allocation exists.
\<close>

theorem override_books_occupied_bed:
  "(case manual_override classmate_app (room_101\<lparr>current_occupancy := 1\<rparr>)
           (Some (bed 1 True)) (Some 9) ''swap'' occupied_db of
      Inr (a, d) \<Rightarrow>
        alloc_application a = 2 \<and> alloc_bed_space a = Some 1 \<and> admin_override a
        \<and> alloc_is_active a
        \<and> map (\<lambda>x. (alloc_application x, alloc_bed_space x, alloc_is_active x))
              (allocations d) = [(1, Some 1, True), (2, Some 1, True)]
        \<and> map is_occupied (bed_spaces d) = [True, False, False, False]
    | Inl e \<Rightarrow> False)
   \<and> manual_override third_year_app (room_101\<lparr>current_occupancy := 1\<rparr>)
        (Some (bed 2 False)) (Some 9) ''move'' occupied_db = Inl IntegrityError"
  by (simp add: manual_override_def cancel_def deallocate_def decrement_occupancy_def
      get_bed_space_def engine_defs example_defs Let_def)

end
